theory Spec2Isabelle
  imports
    Complex_Main
    "HOL-Library.Word"
    "HOL-Library.List_Lexorder"
    "HOL-Library.Sublist"
    "HOL-Library.AList"
begin

section \<open>Strings of the source language\<close>

text \<open>
  A string of the source language is a sequence of 16-bit code units: \<open>substring\<close> and
  \<open>startsWith\<close> count code units, and the default \<open>sort\<close> compares strings code unit by
  code unit, a proper prefix coming first. That order is the lexicographic order of
  lists over the order of words. \<open>js\<close> writes an ASCII literal of the source.
\<close>

type_synonym js_string = "16 word list"

definition js :: "string \<Rightarrow> js_string" where
  "js s = map (\<lambda>c. word_of_nat (of_char c)) s"

text \<open>\<^verbatim>\<open>s.substring(start, end)\<close>: both indices are clamped to the length and swapped
  when out of order.\<close>

definition substring :: "js_string \<Rightarrow> nat \<Rightarrow> nat \<Rightarrow> js_string" where
  "substring s start end' =
     (let a = min start (length s); b = min end' (length s);
          lo = min a b; hi = max a b
      in take (hi - lo) (drop lo s))"

text \<open>\<^verbatim>\<open>s.startsWith(searchString)\<close>, from position 0.\<close>

definition startsWith :: "js_string \<Rightarrow> js_string \<Rightarrow> bool" where
  "startsWith s searchString =
     (length searchString \<le> length s \<and> take (length searchString) s = searchString)"

text \<open>\<^verbatim>\<open>new Set(xs)\<close> followed by \<^verbatim>\<open>Array.from\<close>: the elements in the order of their first
  insertion, each once.\<close>

definition Set_add :: "'a list \<Rightarrow> 'a \<Rightarrow> 'a list" where
  "Set_add s x = (if x \<in> set s then s else s @ [x])"

definition new_Set :: "'a list \<Rightarrow> 'a list" where
  "new_Set xs = foldl Set_add [] xs"

section \<open>Numbers of the source language\<close>

text \<open>
  A number of the source language is an IEEE 754 double. A finite double is held as
  the rational it denotes (the two zeros are not told apart); the sum of two finite
  doubles is their exact sum rounded to the nearest double, ties to the even
  significand, and becomes infinite from \<open>2 ^ 1024\<close> on.

  \<open>ilog2 a\<close> is the binary exponent of a positive rational \<open>a\<close>, the integer \<open>e\<close> with
  \<open>2 ^ e \<le> a < 2 ^ (e + 1)\<close>. A double keeps 53 significant bits, and below \<open>2 ^ (-1022)\<close>
  the spacing stays at \<open>2 ^ (-1074)\<close>.
\<close>

datatype js_number = Finite rat | Infinity | MinusInfinity | NotANumber










text \<open>\<^verbatim>\<open>a >= 0\<close>.\<close>

fun js_ge_zero :: "js_number \<Rightarrow> bool" where
  "js_ge_zero (Finite a) = (0 \<le> a)"
| "js_ge_zero Infinity = True"
| "js_ge_zero MinusInfinity = False"
| "js_ge_zero NotANumber = False"

section \<open>Data model (types.ts)\<close>

text \<open>The members of \<^verbatim>\<open>EquipmentType\<close> are strings at run time.\<close>

definition SPEAKER :: js_string where
  "SPEAKER = [0x0E25, 0x0E33, 0x0E42, 0x0E1E, 0x0E07]"

record SaleItem =
  item_id :: js_string
  brand :: js_string
  item_type :: js_string
  model :: js_string
  costPrice :: js_number
  shippingCost :: js_number
  sellingPrice :: js_number
  date :: js_string
  item_note :: "js_string option"


section \<open>Derived state (App.tsx)\<close>

subsection \<open>The month filter\<close>

definition filteredSales :: "SaleItem list \<Rightarrow> js_string \<Rightarrow> SaleItem list" where
  "filteredSales sales selectedMonth =
     (if selectedMonth = js ''all'' then sales
      else filter (\<lambda>s. startsWith (date s) selectedMonth) sales)"

subsection \<open>Statistics\<close>




subsection \<open>The months of the filter dropdown\<close>

definition availableMonths :: "SaleItem list \<Rightarrow> js_string list" where
  "availableMonths sales =
     (let months = new_Set (map (\<lambda>s. substring (date s) 0 7) sales)
      in rev (sort months))"

subsection \<open>The category chart\<close>

text \<open>
  \<^verbatim>\<open>data\<close> is an ordinary object used as a dictionary. Its own properties are kept in the
  order of their creation; a read of a key it does not own falls through to
  \<open>Object.prototype\<close>, whose members are functions (and, for \<open>__proto__\<close>, an accessor
  returning the prototype object): such values are \<open>Builtin\<close>. They are truthy, and
  converting one to a number gives \<open>NaN\<close>.
\<close>

datatype js_value = Undefined | Num int | NaN | Builtin

type_synonym js_object = "(js_string \<times> js_value) list"

definition Object_prototype_names :: "js_string list" where
  "Object_prototype_names =
     map js [''constructor'', ''__defineGetter__'', ''__defineSetter__'', ''hasOwnProperty'',
             ''__lookupGetter__'', ''__lookupSetter__'', ''isPrototypeOf'',
             ''propertyIsEnumerable'', ''toString'', ''valueOf'', ''__proto__'',
             ''toLocaleString'']"

text \<open>\<^verbatim>\<open>obj[key]\<close>.\<close>

definition get_property :: "js_object \<Rightarrow> js_string \<Rightarrow> js_value" where
  "get_property obj key =
     (case map_of obj key of
        Some v \<Rightarrow> v
      | None \<Rightarrow> if key \<in> set Object_prototype_names then Builtin else Undefined)"

text \<open>\<^verbatim>\<open>obj[key] = v\<close> for a number \<open>v\<close>: the inherited setter of \<open>__proto__\<close> ignores a value
  that is neither an object nor null; any other key becomes, or stays, an own property.\<close>

definition set_property :: "js_object \<Rightarrow> js_string \<Rightarrow> js_value \<Rightarrow> js_object" where
  "set_property obj key v =
     (if key = js ''__proto__'' then obj else AList.update key v obj)"

definition truthy :: "js_value \<Rightarrow> bool" where
  "truthy v = (case v of Num n \<Rightarrow> n \<noteq> 0 | Builtin \<Rightarrow> True | _ \<Rightarrow> False)"

text \<open>The value stored by \<^verbatim>\<open>obj[key]++\<close>.\<close>

definition increment :: "js_value \<Rightarrow> js_value" where
  "increment v = (case v of Num n \<Rightarrow> Num (n + 1) | _ \<Rightarrow> NaN)"

text \<open>
  \<^verbatim>\<open>Object.keys(obj)\<close>: the keys that are array indices (canonical decimal numerals up to
  \<open>2 ^ 32 - 2\<close>) in ascending numeric order, then the other keys in creation order.
\<close>

definition is_digit :: "16 word \<Rightarrow> bool" where
  "is_digit c = (0x30 \<le> c \<and> c \<le> 0x39)"

definition decimal :: "js_string \<Rightarrow> nat" where
  "decimal s = foldl (\<lambda>n c. 10 * n + unat (c - 0x30)) 0 s"

fun is_array_index :: "js_string \<Rightarrow> bool" where
  "is_array_index [] = False"
| "is_array_index (c # cs) =
     (list_all is_digit (c # cs) \<and> (c \<noteq> 0x30 \<or> cs = []) \<and> decimal (c # cs) \<le> 4294967294)"

definition Object_keys :: "js_object \<Rightarrow> js_string list" where
  "Object_keys obj =
     (let ks = map fst obj
      in sort_key decimal (filter is_array_index ks) @ filter (\<lambda>k. \<not> is_array_index k) ks)"

definition categoryData_step :: "js_object \<Rightarrow> SaleItem \<Rightarrow> js_object" where
  "categoryData_step data sale =
     (if truthy (get_property data (item_type sale))
      then set_property data (item_type sale) (increment (get_property data (item_type sale)))
      else set_property data (item_type sale) (Num 1))"

text \<open>The entries \<^verbatim>\<open>{name: key, value: data[key]}\<close> are pairs of a name and a value.\<close>

definition categoryData :: "SaleItem list \<Rightarrow> (js_string \<times> js_value) list" where
  "categoryData filteredSales' =
     (let data = foldl categoryData_step [] filteredSales'
      in map (\<lambda>key. (key, get_property data key)) (Object_keys data))"

section \<open>Handlers (App.tsx)\<close>

datatype View = DASHBOARD | LIST | FORM

text \<open>
  The form state is a \<^verbatim>\<open>Partial<SaleItem>\<close>. \<open>id\<close> and \<open>note\<close> may be absent, and so may
  \<open>brand\<close> and \<open>model\<close>, which the submit handler tests. The type, the amounts and the
  date are written by every assignment to the form state (the initial state,
  \<^verbatim>\<open>resetForm\<close>, \<^verbatim>\<open>handleEdit\<close>) and are modelled as present.
\<close>

record FormData =
  f_id :: "js_string option"
  f_brand :: "js_string option"
  f_type :: js_string
  f_model :: "js_string option"
  f_costPrice :: js_number
  f_shippingCost :: js_number
  f_sellingPrice :: js_number
  f_date :: js_string
  f_note :: "js_string option"

record AppState =
  sales :: "SaleItem list"
  currentView :: View
  editingId :: "js_string option"
  selectedMonth :: js_string
  formData :: FormData

text \<open>\<^verbatim>\<open>!v\<close> for a string that may be absent or null: the empty string is falsy too.\<close>

definition falsy :: "js_string option \<Rightarrow> bool" where
  "falsy v = (case v of None \<Rightarrow> True | Some s \<Rightarrow> s = [])"

text \<open>\<^verbatim>\<open>{ ...formData, id: i } as SaleItem\<close>, where \<open>b\<close> and \<open>m\<close> are the brand and the model
  of the form, present once the guard of the submit handler has passed.\<close>

definition spread_with_id :: "FormData \<Rightarrow> js_string \<Rightarrow> js_string \<Rightarrow> js_string \<Rightarrow> SaleItem" where
  "spread_with_id fd b m i =
     \<lparr>item_id = i, brand = b, item_type = f_type fd, model = m,
      costPrice = f_costPrice fd, shippingCost = f_shippingCost fd,
      sellingPrice = f_sellingPrice fd, date = f_date fd, item_note = f_note fd\<rparr>"

text \<open>\<open>today\<close> is \<^verbatim>\<open>new Date().toISOString().split('T')[0]\<close>, read from the clock.\<close>

definition resetForm :: "js_string \<Rightarrow> AppState \<Rightarrow> AppState" where
  "resetForm today st =
     st\<lparr>formData :=
          \<lparr>f_id = None, f_brand = Some [], f_type = SPEAKER, f_model = Some [],
           f_costPrice = Finite 0, f_shippingCost = Finite 0, f_sellingPrice = Finite 0,
           f_date = today,
           f_note = None\<rparr>,
        editingId := None\<rparr>"

text \<open>
  \<open>uuid\<close> is the result of \<^verbatim>\<open>crypto.randomUUID()\<close>. The guard
  \<^verbatim>\<open>if (!formData.brand || !formData.model) return\<close> is the case distinction on the two
  fields; \<^verbatim>\<open>if (editingId)\<close> fails for \<open>null\<close> and for the empty string.
\<close>

definition handleSubmit :: "js_string \<Rightarrow> js_string \<Rightarrow> AppState \<Rightarrow> AppState" where
  "handleSubmit uuid today st =
     (case (f_brand (formData st), f_model (formData st)) of
        (Some b, Some m) \<Rightarrow>
          if b = [] \<or> m = [] then st
          else
            (let newItem = spread_with_id (formData st) b m uuid;
                 st' =
                   (case editingId st of
                      Some eid \<Rightarrow>
                        if eid \<noteq> []
                        then st\<lparr>sales :=
                               map (\<lambda>item. if item_id item = eid
                                           then spread_with_id (formData st) b m eid
                                           else item) (sales st)\<rparr>
                        else st\<lparr>sales := newItem # sales st\<rparr>
                    | None \<Rightarrow> st\<lparr>sales := newItem # sales st\<rparr>)
             in (resetForm today st')\<lparr>currentView := LIST\<rparr>)
      | _ \<Rightarrow> st)"

text \<open>\<open>confirmed\<close> is the answer of \<^verbatim>\<open>window.confirm\<close>.\<close>

definition handleDelete :: "bool \<Rightarrow> js_string \<Rightarrow> AppState \<Rightarrow> AppState" where
  "handleDelete confirmed i st =
     (if confirmed then st\<lparr>sales := filter (\<lambda>item. item_id item \<noteq> i) (sales st)\<rparr> else st)"

definition handleEdit :: "SaleItem \<Rightarrow> AppState \<Rightarrow> AppState" where
  "handleEdit item st =
     st\<lparr>formData :=
          \<lparr>f_id = Some (item_id item), f_brand = Some (brand item), f_type = item_type item,
           f_model = Some (model item), f_costPrice = costPrice item,
           f_shippingCost = shippingCost item, f_sellingPrice = sellingPrice item,
           f_date = date item, f_note = item_note item\<rparr>,
        editingId := Some (item_id item),
        currentView := FORM\<rparr>"

section \<open>The operations of the record list\<close>

text \<open>
  Create and update are a submit of the form holding the partial record, without and
  with an id under edit; delete is \<^verbatim>\<open>handleDelete\<close> once the user has confirmed.
\<close>

datatype operation =
    Create FormData js_string
  | Update js_string FormData js_string
  | Delete js_string

fun perform :: "js_string \<Rightarrow> AppState \<Rightarrow> operation \<Rightarrow> AppState" where
  "perform today st (Create partialRecord uuid) =
     handleSubmit uuid today (st\<lparr>formData := partialRecord, editingId := None\<rparr>)"
| "perform today st (Update i partialRecord uuid) =
     handleSubmit uuid today (st\<lparr>formData := partialRecord, editingId := Some i\<rparr>)"
| "perform today st (Delete i) = handleDelete True i st"

definition perform_all :: "js_string \<Rightarrow> AppState \<Rightarrow> operation list \<Rightarrow> AppState" where
  "perform_all today st ops = foldl (perform today) st ops"

definition nonNegative :: "SaleItem \<Rightarrow> bool" where
  "nonNegative item =
     (js_ge_zero (costPrice item) \<and> js_ge_zero (shippingCost item) \<and> js_ge_zero (sellingPrice item))"

definition form_nonNegative :: "FormData \<Rightarrow> bool" where
  "form_nonNegative fd =
     (js_ge_zero (f_costPrice fd) \<and> js_ge_zero (f_shippingCost fd) \<and> js_ge_zero (f_sellingPrice fd))"

fun amounts_nonNegative :: "operation \<Rightarrow> bool" where
  "amounts_nonNegative (Create partialRecord uuid) = form_nonNegative partialRecord"
| "amounts_nonNegative (Update i partialRecord uuid) = form_nonNegative partialRecord"
| "amounts_nonNegative (Delete i) = True"

section \<open>Auxiliary notions and sample data\<close>

text \<open>An object whose own properties are all positive counts, and the count it holds
  for a key.\<close>

definition positive_counts :: "js_object \<Rightarrow> bool" where
  "positive_counts obj = (\<forall>k v. map_of obj k = Some v \<longrightarrow> (\<exists>n>0. v = Num n))"

definition count_of :: "js_object \<Rightarrow> js_string \<Rightarrow> int" where
  "count_of obj k = (case map_of obj k of Some (Num n) \<Rightarrow> n | _ \<Rightarrow> 0)"





text \<open>A sale, a form and an application state for the worked examples.\<close>

definition sale_of :: "string \<Rightarrow> string \<Rightarrow> string \<Rightarrow> SaleItem" where
  "sale_of i t d =
     \<lparr>item_id = js i, brand = js ''Sony'', item_type = js t, model = js ''X1'',
      costPrice = Finite 1000, shippingCost = Finite 100, sellingPrice = Finite 1500,
      date = js d,
      item_note = None\<rparr>"

definition form_of :: "string \<Rightarrow> string \<Rightarrow> int \<Rightarrow> FormData" where
  "form_of b m c =
     \<lparr>f_id = None, f_brand = Some (js b), f_type = SPEAKER, f_model = Some (js m),
      f_costPrice = Finite (of_int c), f_shippingCost = Finite 0,
      f_sellingPrice = Finite 2000,
      f_date = js ''2024-03-01'', f_note = None\<rparr>"

definition state_of :: "SaleItem list \<Rightarrow> js_string option \<Rightarrow> FormData \<Rightarrow> AppState" where
  "state_of xs e fd =
     \<lparr>sales = xs, currentView = FORM, editingId = e, selectedMonth = js ''all'', formData = fd\<rparr>"


section \<open>Properties of the derived state\<close>

lemma js_Nil: "js [] = []"
  by (simp add: js_def)

lemma substring_0: "substring s 0 n = take n s"
  by (simp add: substring_def Let_def min_def max_def)

lemma startsWith_prefix: "startsWith s m = prefix m s"
proof
  assume "startsWith s m"
  then have "take (length m) s = m"
    by (simp add: startsWith_def)
  then show "prefix m s"
    by (metis take_is_prefix)
next
  assume "prefix m s"
  then obtain r where "s = m @ r"
    by (auto simp: prefix_def)
  then show "startsWith s m"
    by (simp add: startsWith_def)
qed

lemma set_foldl_Set_add: "set (foldl Set_add acc xs) = set acc \<union> set xs"
  by (induction xs arbitrary: acc) (auto simp: Set_add_def)

lemma distinct_foldl_Set_add: "distinct acc \<Longrightarrow> distinct (foldl Set_add acc xs)"
  by (induction xs arbitrary: acc) (auto simp: Set_add_def)

lemma set_new_Set: "set (new_Set xs) = set xs"
  by (simp add: new_Set_def set_foldl_Set_add)

lemma distinct_new_Set: "distinct (new_Set xs)"
  by (simp add: new_Set_def distinct_foldl_Set_add)

subsection \<open>Rounding\<close>















subsection \<open>Statistics\<close>

























text \<open>
  C2. With the sentinel \<open>all\<close> the filter returns the list itself. With any other month
  string it returns the records whose date has that string as a prefix, in their
  original order: every record of the result has the prefix, and every record of the
  list is in the result or lacks the prefix.
\<close>

theorem filteredSales_partition:
  "filteredSales R (js ''all'') = R
   \<and> (m \<noteq> js ''all'' \<longrightarrow>
        filteredSales R m = filter (\<lambda>r. prefix m (date r)) R
        \<and> subseq (filteredSales R m) R
        \<and> (\<forall>r \<in> set (filteredSales R m). prefix m (date r))
        \<and> (\<forall>r \<in> set R. r \<in> set (filteredSales R m) \<or> \<not> prefix m (date r)))"
  by (auto simp: filteredSales_def startsWith_prefix)

theorem filteredSales_partition_witness:
  "js ''2024-02'' \<noteq> js ''all''
   \<and> filteredSales [sale_of ''1'' ''Speaker'' ''2024-02-01'', sale_of ''2'' ''Speaker'' ''2024-01-10'',
                     sale_of ''3'' ''Cable'' ''2024-02-20''] (js ''2024-02'')
     = [sale_of ''1'' ''Speaker'' ''2024-02-01'', sale_of ''3'' ''Cable'' ''2024-02-20'']"
  using filteredSales_partition
    [of "[sale_of ''1'' ''Speaker'' ''2024-02-01'', sale_of ''2'' ''Speaker'' ''2024-01-10'',
          sale_of ''3'' ''Cable'' ''2024-02-20'']" "js ''2024-02''"]
  by (simp add: sale_of_def js_def)

text \<open>
  C10. With the empty string as month the filter returns the whole list: every date has
  the empty string as a prefix, and the empty string is not the sentinel.
\<close>

theorem filteredSales_empty_month: "filteredSales R (js '''') = R"
  by (simp add: filteredSales_def js_def startsWith_def)

lemma sorted_wrt_rev_sort:
  "distinct xs \<Longrightarrow> sorted_wrt (\<lambda>a b. b < a) (rev (sort (xs :: 'a::linorder list)))"
proof -
  assume "distinct xs"
  then have "sorted_wrt (<) (sort xs)"
    by (simp add: strict_sorted_iff)
  then show ?thesis
    by (simp add: sorted_wrt_rev)
qed

text \<open>
  C8. The months of the dropdown are exactly the first seven code units of the dates of
  the records, each once, in strictly descending order; the dates 2024-02-01,
  2024-01-10, 2024-02-20 give 2024-02, 2024-01.
\<close>

theorem availableMonths_distinct_descending:
  "set (availableMonths R) = (\<lambda>r. take 7 (date r)) ` set R
   \<and> distinct (availableMonths R)
   \<and> sorted_wrt (\<lambda>a b. b < a) (availableMonths R)
   \<and> availableMonths [sale_of ''1'' ''Speaker'' ''2024-02-01'', sale_of ''2'' ''Speaker'' ''2024-01-10'',
                       sale_of ''3'' ''Cable'' ''2024-02-20'']
     = [js ''2024-02'', js ''2024-01'']"
  apply (intro conjI)
  subgoal by (simp add: availableMonths_def set_new_Set substring_0 Let_def)
  subgoal by (simp add: availableMonths_def distinct_new_Set Let_def)
  subgoal by (simp add: availableMonths_def Let_def sorted_wrt_rev_sort distinct_new_Set)
  subgoal by (simp add: availableMonths_def Let_def sale_of_def js_def substring_def new_Set_def Set_add_def)
  done

section \<open>Properties of the category chart\<close>

lemma proto_not_safe: "js ''__proto__'' \<in> set Object_prototype_names"
  by (simp add: Object_prototype_names_def)

lemma map_of_categoryData_step:
  assumes "positive_counts obj" and "item_type sale \<notin> set Object_prototype_names"
  shows "map_of (categoryData_step obj sale)
         = (map_of obj)(item_type sale \<mapsto> Num (count_of obj (item_type sale) + 1))"
proof -
  let ?k = "item_type sale"
  have k: "?k \<noteq> js ''__proto__''"
    using assms(2) proto_not_safe by metis
  show ?thesis
  proof (cases "map_of obj ?k")
    case None
    with k assms(2) show ?thesis
      by (simp add: categoryData_step_def get_property_def set_property_def truthy_def
          count_of_def update_conv')
  next
    case (Some v)
    with assms(1) obtain n where "v = Num n" "n > 0"
      by (auto simp: positive_counts_def)
    with Some k show ?thesis
      by (simp add: categoryData_step_def get_property_def set_property_def truthy_def
          increment_def count_of_def update_conv')
  qed
qed

lemma count_of_nonneg: "positive_counts obj \<Longrightarrow> 0 \<le> count_of obj k"
proof (cases "map_of obj k")
  case None
  then show ?thesis by (simp add: count_of_def)
next
  case (Some v)
  assume "positive_counts obj"
  with Some obtain n where "v = Num n" "n > 0"
    by (auto simp: positive_counts_def)
  with Some show ?thesis by (simp add: count_of_def)
qed

lemma positive_counts_step:
  assumes "positive_counts obj" and "item_type sale \<notin> set Object_prototype_names"
  shows "positive_counts (categoryData_step obj sale)"
proof -
  have "0 \<le> count_of obj (item_type sale)"
    using assms(1) by (rule count_of_nonneg)
  then show ?thesis
    using assms(1)
    unfolding positive_counts_def map_of_categoryData_step[OF assms]
    by auto
qed

lemma map_of_fold_categoryData_step:
  assumes "positive_counts obj" and "\<forall>s \<in> set R. item_type s \<notin> set Object_prototype_names"
  shows "map_of (foldl categoryData_step obj R) t
         = (if t \<in> item_type ` set R \<or> t \<in> dom (map_of obj)
            then Some (Num (count_of obj t + int (count_list (map item_type R) t)))
            else None)"
  using assms
proof (induction R arbitrary: obj)
  case Nil
  then show ?case
    by (auto simp: count_of_def positive_counts_def split: option.splits js_value.splits)
next
  case (Cons s R)
  have s: "item_type s \<notin> set Object_prototype_names"
    using Cons.prems(2) by simp
  have pos: "positive_counts (categoryData_step obj s)"
    using Cons.prems(1) s by (rule positive_counts_step)
  have rest: "\<forall>s \<in> set R. item_type s \<notin> set Object_prototype_names"
    using Cons.prems(2) by simp
  have cnt: "count_of (categoryData_step obj s) t
             = (if t = item_type s then count_of obj t + 1 else count_of obj t)"
    by (simp add: count_of_def[of "categoryData_step obj s"] map_of_categoryData_step[OF Cons.prems(1) s])
       (simp add: count_of_def)
  have dom: "dom (map_of (categoryData_step obj s)) = insert (item_type s) (dom (map_of obj))"
    by (simp add: map_of_categoryData_step[OF Cons.prems(1) s])
  show ?case
    unfolding foldl_Cons Cons.IH[OF pos rest] cnt dom
    by auto
qed

lemma distinct_fold_categoryData_step:
  "distinct (map fst obj) \<Longrightarrow> distinct (map fst (foldl categoryData_step obj R))"
  by (induction R arbitrary: obj)
     (simp_all add: categoryData_step_def set_property_def distinct_update)

lemma set_Object_keys: "set (Object_keys obj) = fst ` set obj"
  by (auto simp: Object_keys_def Let_def)

lemma distinct_Object_keys: "distinct (map fst obj) \<Longrightarrow> distinct (Object_keys obj)"
  by (auto simp: Object_keys_def Let_def)

lemma map_of_tabulate:
  "map_of (map (\<lambda>k. (k, f k)) ks) t = (if t \<in> set ks then Some (f t) else None)"
  by (induction ks) auto

text \<open>
  When no record has a type that names a member of \<open>Object.prototype\<close>, the chart
  holds one entry per type occurring in the list, with the number of its records.
\<close>

lemma categoryData_counts:
  assumes "\<forall>s \<in> set R. item_type s \<notin> set Object_prototype_names"
  shows "map_of (categoryData R) t
         = (if t \<in> item_type ` set R then Some (Num (int (count_list (map item_type R) t)))
            else None)
       \<and> distinct (map fst (categoryData R))"
proof -
  let ?data = "foldl categoryData_step [] R"
  have pos: "positive_counts []"
    by (simp add: positive_counts_def)
  have m: "map_of ?data t
         = (if t \<in> item_type ` set R then Some (Num (int (count_list (map item_type R) t)))
            else None)"
    using map_of_fold_categoryData_step[OF pos assms, of t] by (simp add: count_of_def)
  have keys: "t \<in> set (Object_keys ?data) \<longleftrightarrow> t \<in> item_type ` set R"
    using m by (simp add: set_Object_keys flip: dom_map_of_conv_image_fst) (auto simp: dom_def split: if_splits)
  have d: "distinct (Object_keys ?data)"
    by (rule distinct_Object_keys) (simp add: distinct_fold_categoryData_step)
  have "map fst (categoryData R) = Object_keys ?data"
    by (simp add: categoryData_def Let_def comp_def)
  with d have "distinct (map fst (categoryData R))" by simp
  moreover have "map_of (categoryData R) t
         = (if t \<in> item_type ` set R then Some (Num (int (count_list (map item_type R) t)))
            else None)"
    using m keys by (auto simp: categoryData_def Let_def map_of_tabulate get_property_def)
  ultimately show ?thesis by simp
qed

text \<open>
  C3. The chart should hold, for each type, the number of records of that type. A type
  that names a member of \<open>Object.prototype\<close> is read as present before it was ever
  counted: one record of type \<open>constructor\<close> is charted with \<open>NaN\<close>, two with 1.
\<close>

theorem categoryData_constructor:
  "categoryData [sale_of ''1'' ''constructor'' ''2024-02-01''] = [(js ''constructor'', NaN)]
   \<and> categoryData [sale_of ''1'' ''constructor'' ''2024-02-01'',
                    sale_of ''2'' ''constructor'' ''2024-02-01'']
     = [(js ''constructor'', Num 1)]"
  by (simp add: categoryData_def categoryData_step_def get_property_def set_property_def
      Object_prototype_names_def truthy_def increment_def Object_keys_def sale_of_def js_def Let_def
      is_digit_def)

section \<open>Properties of the handlers\<close>

text \<open>
  C5. A submit whose form has an empty or absent brand, or an empty or absent model,
  changes nothing: the state, and with it the record list, is returned as it was.
\<close>

theorem handleSubmit_rejects:
  "falsy (f_brand (formData st)) \<or> falsy (f_model (formData st))
   \<Longrightarrow> handleSubmit uuid today st = st"
  by (auto simp: handleSubmit_def falsy_def split: option.splits)

theorem handleSubmit_rejects_witness:
  "falsy (f_brand (formData (state_of [sale_of ''1'' ''Speaker'' ''2024-02-01''] None (form_of '''' ''X'' 5))))
   \<and> sales (handleSubmit (js ''u'') (js ''2024-03-02'')
        (state_of [sale_of ''1'' ''Speaker'' ''2024-02-01''] None (form_of '''' ''X'' 5)))
     = [sale_of ''1'' ''Speaker'' ''2024-02-01'']"
  using handleSubmit_rejects
    [of "state_of [sale_of ''1'' ''Speaker'' ''2024-02-01''] None (form_of '''' ''X'' 5)"
        "js ''u''" "js ''2024-03-02''"]
  by (simp add: state_of_def form_of_def falsy_def js_def)

lemma sales_after_update:
  assumes "editingId st = Some i" "i \<noteq> []"
    and "f_brand (formData st) = Some b" "b \<noteq> []"
    and "f_model (formData st) = Some m" "m \<noteq> []"
  shows "sales (handleSubmit uuid today st) =
           map (\<lambda>item. if item_id item = i then spread_with_id (formData st) b m i else item)
             (sales st)"
  using assms by (simp add: handleSubmit_def resetForm_def Let_def)

text \<open>
  C6. As the claim is stated, an update replaces the matching record whatever the partial
  record is. The submit handler rejects an empty brand first: the record under edit
  stays as it was.
\<close>

theorem update_empty_brand_counterexample:
  "sales (handleSubmit (js ''u'') (js ''2024-03-02'')
      (state_of [sale_of ''1'' ''Speaker'' ''2024-02-01''] (Some (js ''1'')) (form_of '''' ''X9'' 5)))
   = [sale_of ''1'' ''Speaker'' ''2024-02-01'']
   \<and> sale_of ''1'' ''Speaker'' ''2024-02-01''
       \<noteq> spread_with_id (form_of '''' ''X9'' 5) (js '''') (js ''X9'') (js ''1'')"
  by (simp add: handleSubmit_def state_of_def form_of_def sale_of_def js_def spread_with_id_def)

text \<open>
  C6. amended. With a non-empty id under edit and a non-empty brand and model in the form,
  the submit maps the list: a record whose id matches becomes the form's values with
  that id, at the same position; every other record is unchanged; when no record has
  the id the list is unchanged.
\<close>

theorem handleSubmit_update:
  assumes "editingId st = Some i" "i \<noteq> []"
    and "f_brand (formData st) = Some b" "b \<noteq> []"
    and "f_model (formData st) = Some m" "m \<noteq> []"
  shows "sales (handleSubmit uuid today st) =
           map (\<lambda>item. if item_id item = i then spread_with_id (formData st) b m i else item)
             (sales st)
    \<and> item_id (spread_with_id (formData st) b m i) = i
    \<and> length (sales (handleSubmit uuid today st)) = length (sales st)
    \<and> (\<forall>n < length (sales st).
          sales (handleSubmit uuid today st) ! n =
            (if item_id (sales st ! n) = i then spread_with_id (formData st) b m i
             else sales st ! n))
    \<and> ((\<forall>item \<in> set (sales st). item_id item \<noteq> i)
          \<longrightarrow> sales (handleSubmit uuid today st) = sales st)"
proof -
  have eq: "sales (handleSubmit uuid today st) =
           map (\<lambda>item. if item_id item = i then spread_with_id (formData st) b m i else item)
             (sales st)"
    using assms by (rule sales_after_update)
  have "(\<forall>item \<in> set (sales st). item_id item \<noteq> i)
          \<longrightarrow> sales (handleSubmit uuid today st) = sales st"
    unfolding eq by (simp add: map_idI)
  then show ?thesis
    unfolding eq by (simp add: spread_with_id_def)
qed

theorem handleSubmit_update_witness:
  "sales (handleSubmit (js ''u'') (js ''2024-03-02'')
      (state_of [sale_of ''1'' ''Speaker'' ''2024-02-01'', sale_of ''2'' ''Cable'' ''2024-01-10'']
         (Some (js ''2'')) (form_of ''Denon'' ''X9'' 5)))
   = [sale_of ''1'' ''Speaker'' ''2024-02-01'',
      spread_with_id (form_of ''Denon'' ''X9'' 5) (js ''Denon'') (js ''X9'') (js ''2'')]
   \<and> sales (handleSubmit (js ''u'') (js ''2024-03-02'')
      (state_of [sale_of ''1'' ''Speaker'' ''2024-02-01'', sale_of ''2'' ''Cable'' ''2024-01-10'']
         (Some (js ''7'')) (form_of ''Denon'' ''X9'' 5)))
   = [sale_of ''1'' ''Speaker'' ''2024-02-01'', sale_of ''2'' ''Cable'' ''2024-01-10'']"
  using
    handleSubmit_update
      [of "state_of [sale_of ''1'' ''Speaker'' ''2024-02-01'', sale_of ''2'' ''Cable'' ''2024-01-10'']
             (Some (js ''2'')) (form_of ''Denon'' ''X9'' 5)"
          "js ''2''" "js ''Denon''" "js ''X9''" "js ''u''" "js ''2024-03-02''", THEN conjunct1]
    handleSubmit_update
      [of "state_of [sale_of ''1'' ''Speaker'' ''2024-02-01'', sale_of ''2'' ''Cable'' ''2024-01-10'']
             (Some (js ''7'')) (form_of ''Denon'' ''X9'' 5)"
          "js ''7''" "js ''Denon''" "js ''X9''" "js ''u''" "js ''2024-03-02''", THEN conjunct1]
  by (simp add: state_of_def form_of_def sale_of_def js_def)

text \<open>
  C7. A confirmed delete keeps exactly the records with a different id, in their order:
  no record of the result has the id, and when no record had it the state is unchanged.
\<close>

theorem handleDelete_removes:
  "sales (handleDelete True i st) = filter (\<lambda>item. item_id item \<noteq> i) (sales st)
   \<and> (\<forall>item \<in> set (sales (handleDelete True i st)). item_id item \<noteq> i)
   \<and> (\<forall>item \<in> set (sales st). item_id item \<noteq> i \<longrightarrow> item \<in> set (sales (handleDelete True i st)))
   \<and> subseq (sales (handleDelete True i st)) (sales st)
   \<and> ((\<forall>item \<in> set (sales st). item_id item \<noteq> i) \<longrightarrow> handleDelete True i st = st)"
proof -
  have "(\<forall>item \<in> set (sales st). item_id item \<noteq> i) \<longrightarrow> handleDelete True i st = st"
    by (simp add: handleDelete_def filter_id_conv)
  then show ?thesis
    by (simp add: handleDelete_def)
qed

theorem handleDelete_removes_witness:
  "sales (handleDelete True (js ''2'')
      (state_of [sale_of ''1'' ''Speaker'' ''2024-02-01'', sale_of ''2'' ''Cable'' ''2024-01-10'',
              sale_of ''3'' ''Cable'' ''2024-02-20''] None (form_of '''' '''' 0)))
   = [sale_of ''1'' ''Speaker'' ''2024-02-01'', sale_of ''3'' ''Cable'' ''2024-02-20'']
   \<and> handleDelete True (js ''9'')
      (state_of [sale_of ''1'' ''Speaker'' ''2024-02-01'', sale_of ''2'' ''Cable'' ''2024-01-10'',
              sale_of ''3'' ''Cable'' ''2024-02-20''] None (form_of '''' '''' 0))
     = state_of [sale_of ''1'' ''Speaker'' ''2024-02-01'', sale_of ''2'' ''Cable'' ''2024-01-10'',
              sale_of ''3'' ''Cable'' ''2024-02-20''] None (form_of '''' '''' 0)"
  using
    handleDelete_removes
      [of "js ''2''" "state_of [sale_of ''1'' ''Speaker'' ''2024-02-01'', sale_of ''2'' ''Cable'' ''2024-01-10'',
              sale_of ''3'' ''Cable'' ''2024-02-20''] None (form_of '''' '''' 0)"]
    handleDelete_removes
      [of "js ''9''" "state_of [sale_of ''1'' ''Speaker'' ''2024-02-01'', sale_of ''2'' ''Cable'' ''2024-01-10'',
              sale_of ''3'' ''Cable'' ''2024-02-20''] None (form_of '''' '''' 0)"]
  by (simp add: state_of_def sale_of_def js_def)

lemma handleSubmit_nonNegative:
  assumes "list_all nonNegative (sales st)" and "form_nonNegative (formData st)"
  shows "list_all nonNegative (sales (handleSubmit uuid today st))"
proof -
  have new: "nonNegative (spread_with_id (formData st) b m i)" for b m i
    using assms(2) by (simp add: nonNegative_def form_nonNegative_def spread_with_id_def)
  show ?thesis
    using assms(1) new
    by (auto simp: handleSubmit_def resetForm_def Let_def list_all_iff
        split: option.splits)
qed

lemma perform_nonNegative:
  assumes "list_all nonNegative (sales st)" and "amounts_nonNegative op"
  shows "list_all nonNegative (sales (perform today st op))"
proof (cases op)
  case (Create fd uuid)
  with assms show ?thesis
    by (simp add: handleSubmit_nonNegative)
next
  case (Update i fd uuid)
  with assms show ?thesis
    by (simp add: handleSubmit_nonNegative)
next
  case (Delete i)
  with assms(1) show ?thesis
    by (simp add: handleDelete_def list_all_iff)
qed

text \<open>
  C9. As the claim is stated, no create or update introduces a negative amount. The
  handlers do not look at the sign of an amount: a create whose cost price is -1 stores it.
\<close>

theorem create_negative_counterexample:
  "list_all nonNegative (sales (state_of [] None (form_of [] [] 0)))
   \<and> \<not> list_all nonNegative
        (sales (perform_all (js ''2024-03-02'') (state_of [] None (form_of [] [] 0))
           [Create (form_of ''Sony'' ''X1'' (- 1)) (js ''u'')]))"
  by (simp add: perform_all_def handleSubmit_def state_of_def form_of_def js_def spread_with_id_def
      resetForm_def nonNegative_def Let_def)

text \<open>
  C9. amended. Operations whose partial records have non-negative amounts keep every
  record of the list non-negative.
\<close>

theorem perform_all_nonNegative:
  "list_all nonNegative (sales st) \<Longrightarrow> list_all amounts_nonNegative ops
   \<Longrightarrow> list_all nonNegative (sales (perform_all today st ops))"
  unfolding perform_all_def
proof (induction ops arbitrary: st)
  case Nil
  then show ?case by simp
next
  case (Cons op ops)
  then show ?case
    by (simp add: perform_nonNegative)
qed

theorem perform_all_nonNegative_witness:
  "list_all nonNegative [sale_of ''1'' ''Speaker'' ''2024-02-01'']
   \<and> list_all amounts_nonNegative
        [Create (form_of ''Denon'' ''X9'' 5) (js ''u''), Update (js ''1'') (form_of ''Sony'' ''X2'' 0) (js ''v'')]
   \<and> list_all nonNegative
        (sales (perform_all (js ''2024-03-02'')
           (state_of [sale_of ''1'' ''Speaker'' ''2024-02-01''] None (form_of '''' '''' 0))
           [Create (form_of ''Denon'' ''X9'' 5) (js ''u''),
            Update (js ''1'') (form_of ''Sony'' ''X2'' 0) (js ''v'')]))"
proof -
  have a: "list_all nonNegative (sales (state_of [sale_of ''1'' ''Speaker'' ''2024-02-01''] None (form_of '''' '''' 0)))"
    by (simp add: state_of_def sale_of_def nonNegative_def)
  have b: "list_all amounts_nonNegative
        [Create (form_of ''Denon'' ''X9'' 5) (js ''u''), Update (js ''1'') (form_of ''Sony'' ''X2'' 0) (js ''v'')]"
    by (simp add: form_of_def form_nonNegative_def)
  from perform_all_nonNegative [OF a b] a b show ?thesis
    by (simp add: state_of_def)
qed

end
